theory Spec2Isabelle
  imports Main
begin

section \<open>JavaScript values, errors and completions\<close>

text \<open>
  The library in \<^verbatim>\<open>dist/index.js\<close> sends an HTTP GET, parses the XML answer with
  \<^verbatim>\<open>xml2js\<close> and reshapes the parsed document. The parsed document and the results
  are plain JavaScript values: strings, arrays and objects (an object keeps its keys in
  insertion order, so it is an association list), with \<^verbatim>\<open>undefined\<close> for a property
  that is not there and \<^verbatim>\<open>null\<close> for the document \<^verbatim>\<open>xml2js\<close> hands over for a blank
  body. A \<open>string\<close> is a sequence of code units; a \<open>char\<close> stands for a code unit
  below 256.
\<close>

datatype jsval =
    JUndefined
  | JNull
  | JString string
  | JArray "jsval list"
  | JObject "(string \<times> jsval) list"

text \<open>
  Every value thrown in this program is an \<^verbatim>\<open>Error\<close> object: it has a \<^verbatim>\<open>name\<close>
  (\<^verbatim>\<open>Error\<close>, \<^verbatim>\<open>TypeError\<close>, \<^verbatim>\<open>FetchError\<close>) and a \<^verbatim>\<open>message\<close>.
\<close>

datatype js_error = JsError (err_name: string) (err_message: string)

text \<open>
  A computation either throws (\<open>Inl\<close>) or returns (\<open>Inr\<close>); a promise either rejects
  (\<open>Inl\<close>) or resolves (\<open>Inr\<close>).
\<close>

type_synonym 'a completion = "js_error + 'a"

text \<open>
  \<^verbatim>\<open>p.then(f)\<close>: a rejection passes through, a resolved value goes to \<open>f\<close>, and what
  \<open>f\<close> throws rejects the result. The same operator sequences two synchronous steps
  of which the first may throw.
\<close>

definition and_then :: "'a completion \<Rightarrow> ('a \<Rightarrow> 'b completion) \<Rightarrow> 'b completion" where
  "and_then p f = (case p of Inl e \<Rightarrow> Inl e | Inr v \<Rightarrow> f v)"

text \<open>\<^verbatim>\<open>p.catch(h)\<close>: a resolved value passes through, a rejection goes to \<open>h\<close>.\<close>

definition promise_catch :: "'a completion \<Rightarrow> (js_error \<Rightarrow> 'a completion) \<Rightarrow> 'a completion" where
  "promise_catch p h = (case p of Inl e \<Rightarrow> h e | Inr v \<Rightarrow> Inr v)"

text \<open>
  \<^verbatim>\<open>Error.prototype.toString\<close>, which is what \<^verbatim>\<open>String(err)\<close> calls: the name, the
  message, or both joined by a colon and a space.
\<close>

definition error_toString :: "js_error \<Rightarrow> string" where
  "error_toString e =
     (if err_name e = [] then err_message e
      else if err_message e = [] then err_name e
      else err_name e @ '': '' @ err_message e)"

text \<open>\<^verbatim>\<open>new Error(message)\<close> for a string.\<close>

definition new_Error :: "string \<Rightarrow> js_error" where
  "new_Error message = JsError ''Error'' message"

text \<open>
  \<^verbatim>\<open>err => { throw new Error(err); }\<close>, the handler every operation ends with:
  \<^verbatim>\<open>new Error\<close> converts its argument, here an error object, to a string.
\<close>

definition rethrow :: "js_error \<Rightarrow> 'a completion" where
  "rethrow err = Inl (new_Error (error_toString err))"

subsection \<open>Property access\<close>

definition nullish :: "jsval \<Rightarrow> bool" where
  "nullish v = (case v of JUndefined \<Rightarrow> True | JNull \<Rightarrow> True | _ \<Rightarrow> False)"

text \<open>
  An array index is a canonical decimal numeral: digits only, and no leading zero
  except for \<^verbatim>\<open>0\<close> itself.
\<close>

definition is_digit :: "char \<Rightarrow> bool" where
  "is_digit c = (c \<in> set ''0123456789'')"

definition array_index :: "string \<Rightarrow> nat option" where
  "array_index key =
     (if key = [] then None
      else if list_ex (\<lambda>c. \<not> is_digit c) key then None
      else if hd key = CHR ''0'' \<and> tl key \<noteq> [] then None
      else Some (foldl (\<lambda>n c. 10 * n + (of_char c - 48)) 0 key))"

text \<open>
  \<^verbatim>\<open>object[key]\<close> on a value that is neither \<^verbatim>\<open>undefined\<close> nor \<^verbatim>\<open>null\<close>: an own
  property of an object, an element of an array, a one-character string of a string,
  and \<^verbatim>\<open>undefined\<close> otherwise. None of the keys this program reads is the name of a
  built-in property. On \<^verbatim>\<open>undefined\<close> and \<^verbatim>\<open>null\<close> the program reads a
  property only through \<open>member\<close>, which throws, or behind the check of \<open>baseGet\<close>;
  there \<open>property\<close> is \<^verbatim>\<open>undefined\<close> by convention.
\<close>

definition property :: "jsval \<Rightarrow> string \<Rightarrow> jsval" where
  "property object key =
     (case object of
        JObject kvs \<Rightarrow> (case map_of kvs key of Some v \<Rightarrow> v | None \<Rightarrow> JUndefined)
      | JArray xs \<Rightarrow>
          (case array_index key of
             Some i \<Rightarrow> (if i < length xs then xs ! i else JUndefined)
           | None \<Rightarrow> JUndefined)
      | JString s \<Rightarrow>
          (case array_index key of
             Some i \<Rightarrow> (if i < length s then JString [s ! i] else JUndefined)
           | None \<Rightarrow> JUndefined)
      | _ \<Rightarrow> JUndefined)"

text \<open>
  The \<^verbatim>\<open>TypeError\<close>s of the engine. Their wording is V8's (Node.js); nothing proved
  below depends on it.
\<close>

definition nullish_name :: "jsval \<Rightarrow> string" where
  "nullish_name v = (if v = JNull then ''null'' else ''undefined'')"

definition quoted :: "string \<Rightarrow> string" where
  "quoted s = [CHR 0x27] @ s @ [CHR 0x27]"

definition cannot_read :: "jsval \<Rightarrow> string \<Rightarrow> js_error" where
  "cannot_read object key =
     JsError ''TypeError''
       (''Cannot read properties of '' @ nullish_name object @ '' (reading '' @ quoted key @ '')'')"

definition cannot_destructure :: "jsval \<Rightarrow> string \<Rightarrow> string \<Rightarrow> js_error" where
  "cannot_destructure object key source =
     JsError ''TypeError''
       (''Cannot destructure property '' @ quoted key @ '' of '' @ quoted source
          @ '' as it is '' @ nullish_name object @ ''.'')"

definition not_a_function :: "string \<Rightarrow> js_error" where
  "not_a_function expr = JsError ''TypeError'' (expr @ '' is not a function'')"

text \<open>\<^verbatim>\<open>object[key]\<close> and \<^verbatim>\<open>object.key\<close> as the program evaluates them.\<close>

definition member :: "jsval \<Rightarrow> string \<Rightarrow> jsval completion" where
  "member object key =
     (if nullish object then Inl (cannot_read object key) else Inr (property object key))"

text \<open>
  \<^verbatim>\<open>list.map(f)\<close>: \<open>f\<close> runs on the elements from left to right and the first throw
  ends the call. \<open>expr\<close> is the source text of the callee, for the message.
\<close>

fun map_elems :: "(jsval \<Rightarrow> jsval completion) \<Rightarrow> jsval list \<Rightarrow> jsval list completion" where
  "map_elems f [] = Inr []"
| "map_elems f (x # xs) =
     and_then (f x) (\<lambda>y. and_then (map_elems f xs) (\<lambda>ys. Inr (y # ys)))"

definition js_map :: "jsval \<Rightarrow> string \<Rightarrow> (jsval \<Rightarrow> jsval completion) \<Rightarrow> jsval completion" where
  "js_map list expr f =
     (case list of
        JArray xs \<Rightarrow> and_then (map_elems f xs) (\<lambda>ys. Inr (JArray ys))
      | JUndefined \<Rightarrow> Inl (cannot_read list ''map'')
      | JNull \<Rightarrow> Inl (cannot_read list ''map'')
      | _ \<Rightarrow> Inl (not_a_function (expr @ ''.map'')))"

text \<open>
  \<^verbatim>\<open>String.prototype.trim\<close>: the white space and line terminator code units below 256
  are TAB, LF, VT, FF, CR, SP and NBSP.
\<close>

definition is_white_space :: "char \<Rightarrow> bool" where
  "is_white_space c = (of_char c \<in> {9, 10, 11, 12, 13, 32, 160 :: nat})"

definition trim :: "string \<Rightarrow> string" where
  "trim s = rev (dropWhile is_white_space (rev (dropWhile is_white_space s)))"

text \<open>\<^verbatim>\<open>value.trim()\<close>, with \<open>expr\<close> the source text of \<open>value\<close>.\<close>

definition call_trim :: "jsval \<Rightarrow> string \<Rightarrow> jsval completion" where
  "call_trim v expr =
     (case v of
        JString s \<Rightarrow> Inr (JString (trim s))
      | JUndefined \<Rightarrow> Inl (cannot_read v ''trim'')
      | JNull \<Rightarrow> Inl (cannot_read v ''trim'')
      | _ \<Rightarrow> Inl (not_a_function (expr @ ''.trim'')))"

subsection \<open>lodash \<^verbatim>\<open>get\<close>\<close>

text \<open>
  \<^verbatim>\<open>get(object, path, defaultValue)\<close> walks the keys of the path while the value is not
  nullish, and gives the default when the result is \<^verbatim>\<open>undefined\<close>. The path is taken
  as the key list lodash splits the path string into; lodash reads the whole string as
  one key only when the object has a property of that name, which no element name of
  an XML document can be (it contains brackets).
\<close>

fun baseGet :: "jsval \<Rightarrow> string list \<Rightarrow> jsval" where
  "baseGet object [] = object"
| "baseGet object (key # path) =
     (if nullish object then JUndefined else baseGet (property object key) path)"

definition get :: "jsval \<Rightarrow> string list \<Rightarrow> jsval \<Rightarrow> jsval" where
  "get object path defaultValue =
     (let result = (if nullish object \<or> path = [] then JUndefined else baseGet object path)
      in if result = JUndefined then defaultValue else result)"

section \<open>The program\<close>

text \<open>
  The response of \<^verbatim>\<open>node-fetch\<close>: \<^verbatim>\<open>ok\<close> is true for a status from 200 to 299, and
  \<^verbatim>\<open>text()\<close> is a promise of the body.
\<close>

record response =
  status :: nat
  text_body :: "string completion"

definition ok :: "response \<Rightarrow> bool" where
  "ok result = (200 \<le> status result \<and> status result < 300)"

definition baseURL :: string where
  "baseURL = ''http://webservice.oca.com.ar/epak_tracking/Oep_TrackEPak.asmx''"

text \<open>
  \<^verbatim>\<open>parseResponse\<close>. \<open>parseXML\<close> is \<^verbatim>\<open>xml2js.parseString\<close>: \<open>Inl err\<close> when its
  callback gets an error, \<open>Inr json\<close> when it gets a document.
\<close>

definition parseResponse :: "(string \<Rightarrow> jsval completion) \<Rightarrow> response \<Rightarrow> jsval completion" where
  "parseResponse parseXML result =
     (if \<not> ok result then and_then (text_body result) (\<lambda>error. Inl (new_Error error))
      else and_then (text_body result) (\<lambda>xmlResult. parseXML xmlResult))"

text \<open>
  \<^verbatim>\<open>getDataFromResponse\<close>: the path
  \<^verbatim>\<open>'DataSet.diffgr:diffgram[0].NewDataSet[0].Table'\<close>, default \<^verbatim>\<open>[]\<close>.
\<close>

definition table_path :: "string list" where
  "table_path = [''DataSet'', ''diffgr:diffgram'', ''0'', ''NewDataSet'', ''0'', ''Table'']"

definition getDataFromResponse :: "jsval \<Rightarrow> jsval" where
  "getDataFromResponse json = get json table_path (JArray [])"

subsection \<open>The row mappings\<close>

text \<open>
  The function each operation maps over the rows. A record literal evaluates its
  fields in the order written, so the first field that cannot be read decides the error.
\<close>

definition listEnvios_elem :: "jsval \<Rightarrow> jsval completion" where
  "listEnvios_elem elem =
     and_then (member elem ''NroProducto'') (\<lambda>NroProducto.
     and_then (member NroProducto ''0'') (\<lambda>nroProducto.
     and_then (member elem ''NumeroEnvio'') (\<lambda>NumeroEnvio.
     and_then (member NumeroEnvio ''0'') (\<lambda>numeroEnvio.
       Inr (JObject [(''nroProducto'', nroProducto), (''numeroEnvio'', numeroEnvio)])))))"

definition tarifarEnvioCorporativo_elem :: "jsval \<Rightarrow> jsval completion" where
  "tarifarEnvioCorporativo_elem elem =
     (if nullish elem then Inl (cannot_destructure elem ''Tarifador'' ''elem'')
      else
        let Tarifador = property elem ''Tarifador'';
            Precio = property elem ''Precio'';
            idTiposervicio = property elem ''idTiposervicio'';
            Ambito = property elem ''Ambito'';
            PlazoEntrega = property elem ''PlazoEntrega'';
            Adicional = property elem ''Adicional'';
            Total = property elem ''Total''
        in
          and_then (member Tarifador ''0'') (\<lambda>tarifador.
          and_then (member Precio ''0'') (\<lambda>precio.
          and_then (member idTiposervicio ''0'') (\<lambda>idTiposervicio0.
          and_then (member Ambito ''0'') (\<lambda>ambito.
          and_then (member PlazoEntrega ''0'') (\<lambda>plazoEntrega.
          and_then (member Adicional ''0'') (\<lambda>adicional.
          and_then (member Total ''0'') (\<lambda>total.
            Inr (JObject
              [(''tarifador'', tarifador),
               (''precio'', precio),
               (''idTiposervicio'', idTiposervicio0),
               (''ambito'', ambito),
               (''plazoEntrega'', plazoEntrega),
               (''adicional'', adicional),
               (''total'', total)])))))))))"

definition getProvincias_elem :: "jsval \<Rightarrow> jsval completion" where
  "getProvincias_elem elem =
     (if nullish elem then Inl (cannot_destructure elem ''IdProvincia'' ''elem'')
      else
        let IdProvincia = property elem ''IdProvincia'';
            Descripcion = property elem ''Descripcion''
        in
          and_then (member IdProvincia ''0'') (\<lambda>idProvincia.
          and_then (member Descripcion ''0'') (\<lambda>Descripcion0.
          and_then (call_trim Descripcion0 ''Descripcion[0]'') (\<lambda>descripcion.
            Inr (JObject [(''idProvincia'', idProvincia), (''descripcion'', descripcion)])))))"

definition getLocalidadesByProvincia_place :: "jsval \<Rightarrow> jsval completion" where
  "getLocalidadesByProvincia_place place =
     and_then (member place ''Nombre'') (\<lambda>Nombre. member Nombre ''0'')"

definition trackingPieza_elem :: "jsval \<Rightarrow> jsval completion" where
  "trackingPieza_elem elem =
     (if nullish elem then Inl (cannot_destructure elem ''NumeroEnvio'' ''elem'')
      else
        let NumeroEnvio = property elem ''NumeroEnvio'';
            Descripcion_Motivo = property elem ''Descripcion_Motivo'';
            Desdcripcion_Estado = property elem ''Desdcripcion_Estado'';
            SUC = property elem ''SUC'';
            fecha = property elem ''fecha''
        in
          and_then (member NumeroEnvio ''0'') (\<lambda>numeroEnvio.
          and_then (member Descripcion_Motivo ''0'') (\<lambda>descripcion_Motivo.
          and_then (member Desdcripcion_Estado ''0'') (\<lambda>desdcripcion_Estado.
          and_then (member SUC ''0'') (\<lambda>suc.
          and_then (member fecha ''0'') (\<lambda>fecha0.
            Inr (JObject
              [(''numeroEnvio'', numeroEnvio),
               (''descripcion_Motivo'', descripcion_Motivo),
               (''desdcripcion_Estado'', desdcripcion_Estado),
               (''suc'', suc),
               (''fecha'', fecha0)])))))))"

subsection \<open>The five operations\<close>

text \<open>
  \<open>fetch\<close> is the network: the promise \<^verbatim>\<open>node-fetch\<close> gives for a URL. Each
  operation is written in three parts: the URL it requests, the promise chain up to
  its \<^verbatim>\<open>.catch\<close>, and the chain with the \<^verbatim>\<open>.catch\<close> handler. The named fields of the
  argument object are the arguments; a field the caller may leave out is an option.
\<close>

definition listEnvios_request :: "string \<Rightarrow> string \<Rightarrow> string \<Rightarrow> string" where
  "listEnvios_request cuit fechaDesde fechaHasta =
     (let URL = baseURL @ ''/List_Envios'';
          params = ''cuit='' @ cuit @ ''&fechaDesde='' @ fechaDesde @ ''&fechaHasta='' @ fechaHasta
      in URL @ ''?'' @ params)"

definition listEnvios_chain ::
  "(string \<Rightarrow> response completion) \<Rightarrow> (string \<Rightarrow> jsval completion) \<Rightarrow>
   string \<Rightarrow> string \<Rightarrow> string \<Rightarrow> jsval completion" where
  "listEnvios_chain fetch parseXML cuit fechaDesde fechaHasta =
     and_then
       (and_then
          (and_then (fetch (listEnvios_request cuit fechaDesde fechaHasta))
             (parseResponse parseXML))
          (\<lambda>json. Inr (getDataFromResponse json)))
       (\<lambda>list. js_map list ''list'' listEnvios_elem)"

definition listEnvios ::
  "(string \<Rightarrow> response completion) \<Rightarrow> (string \<Rightarrow> jsval completion) \<Rightarrow>
   string \<Rightarrow> string \<Rightarrow> string \<Rightarrow> jsval completion" where
  "listEnvios fetch parseXML cuit fechaDesde fechaHasta =
     promise_catch (listEnvios_chain fetch parseXML cuit fechaDesde fechaHasta) rethrow"

definition tarifarEnvioCorporativo_request ::
  "string \<Rightarrow> string \<Rightarrow> string \<Rightarrow> string \<Rightarrow> string \<Rightarrow> string \<Rightarrow> string \<Rightarrow> string \<Rightarrow> string" where
  "tarifarEnvioCorporativo_request operativa cuit pesoTotal volumenTotal codigoPostalOrigen
       codigoPostalDestino cantidadPaquetes valorDeclarado =
     (let URL = baseURL @ ''/Tarifar_Envio_Corporativo'';
          params = ''cuit='' @ cuit @ ''&operativa='' @ operativa
            @ ''&pesoTotal='' @ pesoTotal @ ''&volumenTotal='' @ volumenTotal
            @ ''&codigoPostalOrigen='' @ codigoPostalOrigen
            @ ''&codigoPostalDestino='' @ codigoPostalDestino
            @ ''&cantidadPaquetes='' @ cantidadPaquetes
            @ ''&valorDeclarado='' @ valorDeclarado
      in URL @ ''?'' @ params)"

definition tarifarEnvioCorporativo_chain ::
  "(string \<Rightarrow> response completion) \<Rightarrow> (string \<Rightarrow> jsval completion) \<Rightarrow>
   string \<Rightarrow> string \<Rightarrow> string \<Rightarrow> string \<Rightarrow> string \<Rightarrow> string \<Rightarrow> string \<Rightarrow> string \<Rightarrow>
   jsval completion" where
  "tarifarEnvioCorporativo_chain fetch parseXML operativa cuit pesoTotal volumenTotal
       codigoPostalOrigen codigoPostalDestino cantidadPaquetes valorDeclarado =
     and_then
       (and_then
          (and_then
             (fetch (tarifarEnvioCorporativo_request operativa cuit pesoTotal volumenTotal
                codigoPostalOrigen codigoPostalDestino cantidadPaquetes valorDeclarado))
             (parseResponse parseXML))
          (\<lambda>json. Inr (getDataFromResponse json)))
       (\<lambda>list. js_map list ''list'' tarifarEnvioCorporativo_elem)"

definition tarifarEnvioCorporativo ::
  "(string \<Rightarrow> response completion) \<Rightarrow> (string \<Rightarrow> jsval completion) \<Rightarrow>
   string \<Rightarrow> string \<Rightarrow> string \<Rightarrow> string \<Rightarrow> string \<Rightarrow> string \<Rightarrow> string \<Rightarrow> string \<Rightarrow>
   jsval completion" where
  "tarifarEnvioCorporativo fetch parseXML operativa cuit pesoTotal volumenTotal
       codigoPostalOrigen codigoPostalDestino cantidadPaquetes valorDeclarado =
     promise_catch
       (tarifarEnvioCorporativo_chain fetch parseXML operativa cuit pesoTotal volumenTotal
          codigoPostalOrigen codigoPostalDestino cantidadPaquetes valorDeclarado)
       rethrow"

definition getProvincias_request :: string where
  "getProvincias_request = (let URL = baseURL @ ''/GetProvincias'' in URL)"

definition getProvincias_chain ::
  "(string \<Rightarrow> response completion) \<Rightarrow> (string \<Rightarrow> jsval completion) \<Rightarrow> jsval completion" where
  "getProvincias_chain fetch parseXML =
     and_then
       (and_then
          (and_then (fetch getProvincias_request) (parseResponse parseXML))
          (\<lambda>json. Inr (getDataFromResponse json)))
       (\<lambda>list. js_map list ''list'' getProvincias_elem)"

definition getProvincias ::
  "(string \<Rightarrow> response completion) \<Rightarrow> (string \<Rightarrow> jsval completion) \<Rightarrow> jsval completion" where
  "getProvincias fetch parseXML = promise_catch (getProvincias_chain fetch parseXML) rethrow"

definition getLocalidadesByProvincia_request :: "string \<Rightarrow> string" where
  "getLocalidadesByProvincia_request idProvincia =
     (let URL = ''http://webservice.oca.com.ar/oep_tracking/Oep_Track.asmx/GetLocalidadesByProvincia'';
          params = ''idProvincia='' @ idProvincia
      in URL @ ''?'' @ params)"

definition getLocalidadesByProvincia_chain ::
  "(string \<Rightarrow> response completion) \<Rightarrow> (string \<Rightarrow> jsval completion) \<Rightarrow>
   string \<Rightarrow> jsval completion" where
  "getLocalidadesByProvincia_chain fetch parseXML idProvincia =
     and_then
       (and_then (fetch (getLocalidadesByProvincia_request idProvincia)) (parseResponse parseXML))
       (\<lambda>json.
          and_then (member json ''Localidades'') (\<lambda>Localidades.
          and_then (member Localidades ''Provincia'') (\<lambda>Provincia.
            js_map Provincia ''json.Localidades.Provincia'' getLocalidadesByProvincia_place)))"

definition getLocalidadesByProvincia ::
  "(string \<Rightarrow> response completion) \<Rightarrow> (string \<Rightarrow> jsval completion) \<Rightarrow>
   string \<Rightarrow> jsval completion" where
  "getLocalidadesByProvincia fetch parseXML idProvincia =
     promise_catch (getLocalidadesByProvincia_chain fetch parseXML idProvincia) rethrow"

text \<open>
  \<^verbatim>\<open>trackingPieza\<close>: a default parameter value stands in for a field that is left
  out (\<open>None\<close>).
\<close>

definition trackingPieza_request :: "string \<Rightarrow> string option \<Rightarrow> string option \<Rightarrow> string" where
  "trackingPieza_request pieza nroDocumentoCliente cuit =
     (let nroDocumentoCliente' = (case nroDocumentoCliente of None \<Rightarrow> ''0'' | Some v \<Rightarrow> v);
          cuit' = (case cuit of None \<Rightarrow> ''0'' | Some v \<Rightarrow> v);
          URL = baseURL @ ''/Tracking_Pieza'';
          params = ''pieza='' @ pieza @ ''&nroDocumentoCliente='' @ nroDocumentoCliente'
            @ ''&cuit='' @ cuit'
      in URL @ ''?'' @ params)"

definition trackingPieza_chain ::
  "(string \<Rightarrow> response completion) \<Rightarrow> (string \<Rightarrow> jsval completion) \<Rightarrow>
   string \<Rightarrow> string option \<Rightarrow> string option \<Rightarrow> jsval completion" where
  "trackingPieza_chain fetch parseXML pieza nroDocumentoCliente cuit =
     and_then
       (and_then
          (and_then (fetch (trackingPieza_request pieza nroDocumentoCliente cuit))
             (parseResponse parseXML))
          (\<lambda>json. Inr (getDataFromResponse json)))
       (\<lambda>list. js_map list ''list'' trackingPieza_elem)"

definition trackingPieza ::
  "(string \<Rightarrow> response completion) \<Rightarrow> (string \<Rightarrow> jsval completion) \<Rightarrow>
   string \<Rightarrow> string option \<Rightarrow> string option \<Rightarrow> jsval completion" where
  "trackingPieza fetch parseXML pieza nroDocumentoCliente cuit =
     promise_catch (trackingPieza_chain fetch parseXML pieza nroDocumentoCliente cuit) rethrow"

section \<open>Basic facts\<close>

lemma and_then_Inl: "and_then (Inl e) f = Inl e"
  by (simp add: and_then_def)

lemma and_then_Inr: "and_then (Inr v) f = f v"
  by (simp add: and_then_def)

lemma promise_catch_Inl: "promise_catch (Inl e) h = h e"
  by (simp add: promise_catch_def)

lemma promise_catch_Inr: "promise_catch (Inr v) h = Inr v"
  by (simp add: promise_catch_def)

lemmas completion_simps = and_then_Inl and_then_Inr promise_catch_Inl promise_catch_Inr

lemma error_toString_new_Error:
  "error_toString (new_Error body) = (if body = [] then ''Error'' else ''Error: '' @ body)"
  by (simp add: error_toString_def new_Error_def)

lemma parseResponse_failure:
  assumes "\<not> ok result" and "text_body result = Inr body"
  shows "parseResponse parseXML result = Inl (new_Error body)"
  using assms by (simp add: parseResponse_def and_then_Inr)

lemma parseResponse_success:
  assumes "ok result" and "text_body result = Inr xml"
  shows "parseResponse parseXML result = parseXML xml"
  using assms by (simp add: parseResponse_def and_then_Inr)

lemmas chain_defs =
  listEnvios_chain_def tarifarEnvioCorporativo_chain_def getProvincias_chain_def
  getLocalidadesByProvincia_chain_def trackingPieza_chain_def

lemmas operation_defs =
  listEnvios_def tarifarEnvioCorporativo_def getProvincias_def
  getLocalidadesByProvincia_def trackingPieza_def

lemma ok_500: "\<not> ok \<lparr>status = 500, text_body = b\<rparr>"
  by (simp add: ok_def)

lemma ok_200: "ok \<lparr>status = 200, text_body = b\<rparr>"
  by (simp add: ok_def)

section \<open>Upstream failure\<close>

text \<open>
  C1 (as amended). When the response has a failure status, \<^verbatim>\<open>parseResponse\<close> rejects
  with an error whose message is the body text; each of the five operations then
  rejects with a new \<^verbatim>\<open>Error\<close> whose message is the string conversion of that error:
  \<^verbatim>\<open>Error: \<close> followed by the body text, or just \<^verbatim>\<open>Error\<close> for an empty body.
\<close>

theorem upstream_failure_message:
  assumes "\<And>url. fetch url = Inr result"
    and "\<not> ok result"
    and "text_body result = Inr body"
  shows "parseResponse parseXML result = Inl (JsError ''Error'' body)
    \<and> listEnvios fetch parseXML cuit fechaDesde fechaHasta
        = Inl (JsError ''Error'' (if body = [] then ''Error'' else ''Error: '' @ body))
    \<and> tarifarEnvioCorporativo fetch parseXML operativa cuit pesoTotal volumenTotal
          codigoPostalOrigen codigoPostalDestino cantidadPaquetes valorDeclarado
        = Inl (JsError ''Error'' (if body = [] then ''Error'' else ''Error: '' @ body))
    \<and> getProvincias fetch parseXML
        = Inl (JsError ''Error'' (if body = [] then ''Error'' else ''Error: '' @ body))
    \<and> getLocalidadesByProvincia fetch parseXML idProvincia
        = Inl (JsError ''Error'' (if body = [] then ''Error'' else ''Error: '' @ body))
    \<and> trackingPieza fetch parseXML pieza nroDocumentoCliente cuit'
        = Inl (JsError ''Error'' (if body = [] then ''Error'' else ''Error: '' @ body))"
proof -
  have inner: "parseResponse parseXML result = Inl (new_Error body)"
    using assms(2,3) by (rule parseResponse_failure)
  have wrapped: "rethrow (new_Error body)
      = (Inl (JsError ''Error'' (if body = [] then ''Error'' else ''Error: '' @ body))
          :: jsval completion)"
    by (simp add: rethrow_def error_toString_new_Error) (simp add: new_Error_def)
  show ?thesis
    using inner wrapped
    by (simp add: operation_defs chain_defs assms(1) completion_simps new_Error_def)
qed

theorem upstream_failure_message_witness:
  "\<not> ok \<lparr>status = 500, text_body = Inr ''boom''\<rparr>
   \<and> parseResponse (\<lambda>xml. Inr JNull) \<lparr>status = 500, text_body = Inr ''boom''\<rparr>
       = Inl (JsError ''Error'' ''boom'')
   \<and> getProvincias (\<lambda>url. Inr \<lparr>status = 500, text_body = Inr ''boom''\<rparr>) (\<lambda>xml. Inr JNull)
       = Inl (JsError ''Error'' ''Error: boom'')
   \<and> trackingPieza (\<lambda>url. Inr \<lparr>status = 500, text_body = Inr ''boom''\<rparr>) (\<lambda>xml. Inr JNull)
         ''4610700000000000648'' None None
       = Inl (JsError ''Error'' ''Error: boom'')"
  using upstream_failure_message
    [of "\<lambda>url. Inr \<lparr>status = 500, text_body = Inr ''boom''\<rparr>"
        "\<lparr>status = 500, text_body = Inr ''boom''\<rparr>" "''boom''" "\<lambda>xml. Inr JNull"]
  by (simp add: ok_500)

text \<open>
  C1 as the spec states it fails: for a status 500 response with body \<^verbatim>\<open>boom\<close>,
  \<^verbatim>\<open>listEnvios\<close> rejects with the message \<^verbatim>\<open>Error: boom\<close>, which is not the body text.
\<close>

theorem upstream_failure_message_counterexample:
  "listEnvios (\<lambda>url. Inr \<lparr>status = 500, text_body = Inr ''boom''\<rparr>) (\<lambda>xml. Inr JNull)
       ''30-71448151-3'' ''02/06/2016'' ''03/06/2016''
     = Inl (JsError ''Error'' ''Error: boom'')
   \<and> err_message (JsError ''Error'' ''Error: boom'') \<noteq> ''boom''"
  by (simp add: operation_defs chain_defs completion_simps parseResponse_def ok_def
      rethrow_def error_toString_def new_Error_def)

section \<open>The request of \<^verbatim>\<open>trackingPieza\<close>\<close>

text \<open>
  C6. When the caller leaves out \<^verbatim>\<open>nroDocumentoCliente\<close> and \<^verbatim>\<open>cuit\<close>, the URL
  \<^verbatim>\<open>trackingPieza\<close> requests carries the literal \<^verbatim>\<open>0\<close> for both and the given
  \<^verbatim>\<open>pieza\<close> unchanged. The operation sends its request to that URL: its outcome is
  what the rest of the promise chain makes of the answer of the network there, so it
  rejects with the wrapped error when the network fails there, and it is the same on a
  network that fails everywhere else.
\<close>

theorem trackingPieza_default_parameters:
  "trackingPieza_request pieza None None
     = ''http://webservice.oca.com.ar/epak_tracking/Oep_TrackEPak.asmx/Tracking_Pieza?pieza=''
         @ pieza @ ''&nroDocumentoCliente=0&cuit=0''
   \<and> trackingPieza fetch parseXML pieza None None
     = promise_catch
         (and_then
            (and_then
               (and_then
                  (fetch (''http://webservice.oca.com.ar/epak_tracking/Oep_TrackEPak.asmx/Tracking_Pieza?pieza=''
                     @ pieza @ ''&nroDocumentoCliente=0&cuit=0''))
                  (parseResponse parseXML))
               (\<lambda>json. Inr (getDataFromResponse json)))
            (\<lambda>list. js_map list ''list'' trackingPieza_elem))
         rethrow
   \<and> (fetch (''http://webservice.oca.com.ar/epak_tracking/Oep_TrackEPak.asmx/Tracking_Pieza?pieza=''
          @ pieza @ ''&nroDocumentoCliente=0&cuit=0'') = Inl err \<longrightarrow>
        trackingPieza fetch parseXML pieza None None = Inl (new_Error (error_toString err)))
   \<and> trackingPieza fetch parseXML pieza None None
     = trackingPieza
         (\<lambda>url. if url = ''http://webservice.oca.com.ar/epak_tracking/Oep_TrackEPak.asmx/Tracking_Pieza?pieza=''
                     @ pieza @ ''&nroDocumentoCliente=0&cuit=0''
                then fetch url else Inl e)
         parseXML pieza None None"
proof -
  have url: "trackingPieza_request pieza None None
     = ''http://webservice.oca.com.ar/epak_tracking/Oep_TrackEPak.asmx/Tracking_Pieza?pieza=''
         @ pieza @ ''&nroDocumentoCliente=0&cuit=0''"
    by (simp add: trackingPieza_request_def baseURL_def)
  show ?thesis
    unfolding trackingPieza_def trackingPieza_chain_def url
    by (simp add: completion_simps rethrow_def)
qed

theorem trackingPieza_default_parameters_witness:
  "trackingPieza
      (\<lambda>url. if url = ''http://webservice.oca.com.ar/epak_tracking/Oep_TrackEPak.asmx/Tracking_Pieza?pieza=4610700000000000648&nroDocumentoCliente=0&cuit=0''
         then Inl (JsError ''FetchError'' ''request failed'')
         else Inr \<lparr>status = 200, text_body = Inr ''<DataSet/>''\<rparr>)
      (\<lambda>xml. Inr (JObject [(''DataSet'', JString [])]))
      ''4610700000000000648'' None None
     = Inl (JsError ''Error'' ''FetchError: request failed'')"
  using trackingPieza_default_parameters
    [of "''4610700000000000648''"
        "\<lambda>url. if url = ''http://webservice.oca.com.ar/epak_tracking/Oep_TrackEPak.asmx/Tracking_Pieza?pieza=4610700000000000648&nroDocumentoCliente=0&cuit=0''
           then Inl (JsError ''FetchError'' ''request failed'')
           else Inr \<lparr>status = 200, text_body = Inr ''<DataSet/>''\<rparr>"
        "\<lambda>xml. Inr (JObject [(''DataSet'', JString [])])"
        "JsError ''FetchError'' ''request failed''" "JsError ''FetchError'' ''request failed''"]
  by (simp add: completion_simps rethrow_def new_Error_def error_toString_def)

section \<open>Parse errors\<close>

text \<open>
  C7 (as amended). When the response has a success status and the XML parser reports
  an error for its body, each of the five operations rejects: the rejection is the
  \<^verbatim>\<open>.catch\<close> handler's new \<^verbatim>\<open>Error\<close> around the parse error, and no operation
  resolves.
\<close>

theorem parse_error_rejects:
  assumes "\<And>url. fetch url = Inr result"
    and "ok result"
    and "text_body result = Inr xml"
    and "parseXML xml = Inl err"
  shows "listEnvios fetch parseXML cuit fechaDesde fechaHasta
        = Inl (new_Error (error_toString err))
    \<and> tarifarEnvioCorporativo fetch parseXML operativa cuit pesoTotal volumenTotal
          codigoPostalOrigen codigoPostalDestino cantidadPaquetes valorDeclarado
        = Inl (new_Error (error_toString err))
    \<and> getProvincias fetch parseXML = Inl (new_Error (error_toString err))
    \<and> getLocalidadesByProvincia fetch parseXML idProvincia
        = Inl (new_Error (error_toString err))
    \<and> trackingPieza fetch parseXML pieza nroDocumentoCliente cuit'
        = Inl (new_Error (error_toString err))"
proof -
  have "parseResponse parseXML result = Inl err"
    using assms(2,3,4) by (simp add: parseResponse_success)
  then show ?thesis
    by (simp add: operation_defs chain_defs assms(1) completion_simps rethrow_def)
qed

theorem parse_error_rejects_witness:
  "ok \<lparr>status = 200, text_body = Inr ''<DataSet>''\<rparr>
   \<and> listEnvios (\<lambda>url. Inr \<lparr>status = 200, text_body = Inr ''<DataSet>''\<rparr>)
         (\<lambda>xml. Inl (JsError ''Error'' ''Unclosed root tag''))
         ''30-71448151-3'' ''02/06/2016'' ''03/06/2016''
       = Inl (JsError ''Error'' ''Error: Unclosed root tag'')
   \<and> getLocalidadesByProvincia (\<lambda>url. Inr \<lparr>status = 200, text_body = Inr ''<DataSet>''\<rparr>)
         (\<lambda>xml. Inl (JsError ''Error'' ''Unclosed root tag'')) ''1''
       = Inl (JsError ''Error'' ''Error: Unclosed root tag'')"
  using parse_error_rejects
    [of "\<lambda>url. Inr \<lparr>status = 200, text_body = Inr ''<DataSet>''\<rparr>"
        "\<lparr>status = 200, text_body = Inr ''<DataSet>''\<rparr>" "''<DataSet>''"
        "\<lambda>xml. Inl (JsError ''Error'' ''Unclosed root tag'')"
        "JsError ''Error'' ''Unclosed root tag''"]
  by (simp add: ok_200 new_Error_def error_toString_def)

text \<open>
  C7 as the spec states it fails. A blank body is not well-formed XML, but \<^verbatim>\<open>xml2js\<close>
  reports no error for it and hands over \<^verbatim>\<open>null\<close>; \<^verbatim>\<open>parseResponse\<close> resolves
  with that, \<^verbatim>\<open>getDataFromResponse\<close> gives its default, and \<^verbatim>\<open>listEnvios\<close> resolves
  to the empty array.
\<close>

theorem parse_error_rejects_counterexample:
  "ok \<lparr>status = 200, text_body = Inr []\<rparr>
   \<and> parseResponse (\<lambda>xml. Inr JNull) \<lparr>status = 200, text_body = Inr []\<rparr> = Inr JNull
   \<and> listEnvios (\<lambda>url. Inr \<lparr>status = 200, text_body = Inr []\<rparr>) (\<lambda>xml. Inr JNull)
       ''30-71448151-3'' ''02/06/2016'' ''03/06/2016''
     = Inr (JArray [])"
  by (simp add: operation_defs chain_defs completion_simps parseResponse_def ok_def
      getDataFromResponse_def get_def nullish_def js_map_def)

section \<open>The \<^verbatim>\<open>.catch\<close> handler\<close>

lemma error_toString_not_message:
  assumes "err_name e \<noteq> []"
  shows "error_toString e \<noteq> err_message e"
proof (cases "err_message e = []")
  case True
  then show ?thesis using assms by (simp add: error_toString_def)
next
  case False
  have "length (error_toString e) = length (err_name e) + 2 + length (err_message e)"
    using assms False by (simp add: error_toString_def)
  then show ?thesis by auto
qed

lemma new_Error_toString_differs: "new_Error (error_toString e) \<noteq> e"
proof
  assume same: "new_Error (error_toString e) = e"
  then have name: "err_name e = ''Error''"
    by (metis js_error.sel(1) new_Error_def)
  from same have "err_message e = error_toString e"
    by (metis js_error.sel(2) new_Error_def)
  moreover have "error_toString e \<noteq> err_message e"
    using name by (intro error_toString_not_message) simp
  ultimately show False by simp
qed

text \<open>
  C9. Whatever error the promise chain of an operation rejects with (the error of a
  failure status, a parse error, a \<^verbatim>\<open>TypeError\<close> for a missing field), the operation
  rejects with a new \<^verbatim>\<open>Error\<close> whose message is the string conversion of that error.
  The new error is never the original one, and its message is not the original
  message when the original error has a name, as every \<^verbatim>\<open>Error\<close> object has.
\<close>

theorem operations_rewrap_errors:
  "(listEnvios_chain fetch parseXML cuit fechaDesde fechaHasta = Inl e \<longrightarrow>
      listEnvios fetch parseXML cuit fechaDesde fechaHasta
        = Inl (new_Error (error_toString e)))
   \<and> (tarifarEnvioCorporativo_chain fetch parseXML operativa cuit pesoTotal volumenTotal
          codigoPostalOrigen codigoPostalDestino cantidadPaquetes valorDeclarado = Inl e \<longrightarrow>
      tarifarEnvioCorporativo fetch parseXML operativa cuit pesoTotal volumenTotal
          codigoPostalOrigen codigoPostalDestino cantidadPaquetes valorDeclarado
        = Inl (new_Error (error_toString e)))
   \<and> (getProvincias_chain fetch parseXML = Inl e \<longrightarrow>
      getProvincias fetch parseXML = Inl (new_Error (error_toString e)))
   \<and> (getLocalidadesByProvincia_chain fetch parseXML idProvincia = Inl e \<longrightarrow>
      getLocalidadesByProvincia fetch parseXML idProvincia
        = Inl (new_Error (error_toString e)))
   \<and> (trackingPieza_chain fetch parseXML pieza nroDocumentoCliente cuit' = Inl e \<longrightarrow>
      trackingPieza fetch parseXML pieza nroDocumentoCliente cuit'
        = Inl (new_Error (error_toString e)))
   \<and> new_Error (error_toString e) \<noteq> e
   \<and> err_name (new_Error (error_toString e)) = ''Error''
   \<and> (err_name e \<noteq> [] \<longrightarrow> err_message (new_Error (error_toString e)) \<noteq> err_message e)"
proof -
  have "err_name e \<noteq> [] \<longrightarrow> err_message (new_Error (error_toString e)) \<noteq> err_message e"
    using error_toString_not_message [of e] by (simp add: new_Error_def)
  moreover have "err_name (new_Error (error_toString e)) = ''Error''"
    by (simp add: new_Error_def)
  ultimately show ?thesis
    using new_Error_toString_differs [of e]
    by (simp add: operation_defs promise_catch_Inl rethrow_def)
qed

theorem operations_rewrap_errors_witness:
  "listEnvios_chain (\<lambda>url. Inr \<lparr>status = 500, text_body = Inr ''boom''\<rparr>) (\<lambda>xml. Inr JNull)
      ''30-71448151-3'' ''02/06/2016'' ''03/06/2016'' = Inl (JsError ''Error'' ''boom'')
   \<and> listEnvios (\<lambda>url. Inr \<lparr>status = 500, text_body = Inr ''boom''\<rparr>) (\<lambda>xml. Inr JNull)
      ''30-71448151-3'' ''02/06/2016'' ''03/06/2016''
     = Inl (new_Error (error_toString (JsError ''Error'' ''boom'')))
   \<and> tarifarEnvioCorporativo (\<lambda>url. Inr \<lparr>status = 500, text_body = Inr ''boom''\<rparr>)
      (\<lambda>xml. Inr JNull) ''63082'' ''30-71448151-3'' ''3.5'' ''2'' ''2000'' ''2000'' ''5'' ''100''
     = Inl (new_Error (error_toString (JsError ''Error'' ''boom'')))
   \<and> getProvincias (\<lambda>url. Inr \<lparr>status = 500, text_body = Inr ''boom''\<rparr>) (\<lambda>xml. Inr JNull)
     = Inl (new_Error (error_toString (JsError ''Error'' ''boom'')))
   \<and> getLocalidadesByProvincia (\<lambda>url. Inr \<lparr>status = 500, text_body = Inr ''boom''\<rparr>)
      (\<lambda>xml. Inr JNull) ''1''
     = Inl (new_Error (error_toString (JsError ''Error'' ''boom'')))
   \<and> trackingPieza (\<lambda>url. Inr \<lparr>status = 500, text_body = Inr ''boom''\<rparr>) (\<lambda>xml. Inr JNull)
      ''4610700000000000648'' None None
     = Inl (new_Error (error_toString (JsError ''Error'' ''boom'')))
   \<and> err_message (new_Error (error_toString (JsError ''Error'' ''boom''))) \<noteq> ''boom''
   \<and> getLocalidadesByProvincia_chain (\<lambda>url. Inr \<lparr>status = 200, text_body = Inr ''<Table/>''\<rparr>)
      (\<lambda>xml. Inr (JObject [(''Table'', JString [])])) ''1''
     = Inl (cannot_read JUndefined ''Provincia'')
   \<and> getLocalidadesByProvincia (\<lambda>url. Inr \<lparr>status = 200, text_body = Inr ''<Table/>''\<rparr>)
      (\<lambda>xml. Inr (JObject [(''Table'', JString [])])) ''1''
     = Inl (new_Error (error_toString (cannot_read JUndefined ''Provincia'')))
   \<and> err_message (new_Error (error_toString (cannot_read JUndefined ''Provincia'')))
       \<noteq> err_message (cannot_read JUndefined ''Provincia'')"
proof -
  let ?down = "\<lambda>url :: string. Inr \<lparr>status = 500, text_body = Inr ''boom''\<rparr> :: response completion"
  let ?null = "\<lambda>xml :: string. Inr JNull :: jsval completion"
  let ?fetch = "\<lambda>url :: string. Inr \<lparr>status = 200, text_body = Inr ''<Table/>''\<rparr> :: response completion"
  let ?parse = "\<lambda>xml :: string. Inr (JObject [(''Table'', JString [])]) :: jsval completion"
  have failed: "parseResponse ?null \<lparr>status = 500, text_body = Inr ''boom''\<rparr>
      = Inl (JsError ''Error'' ''boom'')"
    by (simp add: parseResponse_def ok_def and_then_Inr new_Error_def)
  have chains:
    "listEnvios_chain ?down ?null ''30-71448151-3'' ''02/06/2016'' ''03/06/2016''
      = Inl (JsError ''Error'' ''boom'')"
    "tarifarEnvioCorporativo_chain ?down ?null
        ''63082'' ''30-71448151-3'' ''3.5'' ''2'' ''2000'' ''2000'' ''5'' ''100''
      = Inl (JsError ''Error'' ''boom'')"
    "getProvincias_chain ?down ?null = Inl (JsError ''Error'' ''boom'')"
    "getLocalidadesByProvincia_chain ?down ?null ''1'' = Inl (JsError ''Error'' ''boom'')"
    "trackingPieza_chain ?down ?null ''4610700000000000648'' None None
      = Inl (JsError ''Error'' ''boom'')"
    by (simp_all add: chain_defs failed completion_simps)
  have name: "err_name (cannot_read JUndefined ''Provincia'') = ''TypeError''"
    by (simp add: cannot_read_def)
  have chain: "getLocalidadesByProvincia_chain ?fetch ?parse ''1''
      = Inl (cannot_read JUndefined ''Provincia'')"
    by (simp add: getLocalidadesByProvincia_chain_def parseResponse_def ok_def completion_simps
        member_def nullish_def property_def)
  show ?thesis
    using operations_rewrap_errors
      [where fetch = ?down and parseXML = ?null and e = "JsError ''Error'' ''boom''"
         and cuit = "''30-71448151-3''" and fechaDesde = "''02/06/2016''"
         and fechaHasta = "''03/06/2016''" and operativa = "''63082''"
         and pesoTotal = "''3.5''" and volumenTotal = "''2''"
         and codigoPostalOrigen = "''2000''" and codigoPostalDestino = "''2000''"
         and cantidadPaquetes = "''5''" and valorDeclarado = "''100''"
         and idProvincia = "''1''" and pieza = "''4610700000000000648''"
         and nroDocumentoCliente = None and cuit' = None]
      operations_rewrap_errors
      [where fetch = ?fetch and parseXML = ?parse and idProvincia = "''1''"
         and e = "cannot_read JUndefined ''Provincia''"]
      chains name chain
    by simp
qed

section \<open>The Field Extractor\<close>

lemma property_nullish: "nullish v \<Longrightarrow> property v key = JUndefined"
  by (cases v) (simp_all add: nullish_def property_def)

lemma foldl_property_undefined: "foldl property JUndefined path = JUndefined"
  by (induction path) (simp_all add: property_def)

lemma baseGet_foldl: "baseGet v path = foldl property v path"
proof (induction path arbitrary: v)
  case Nil
  show ?case by simp
next
  case (Cons key path)
  show ?case
  proof (cases "nullish v")
    case True
    then show ?thesis by (simp add: property_nullish foldl_property_undefined)
  next
    case False
    then show ?thesis using Cons.IH by simp
  qed
qed

lemma getDataFromResponse_foldl:
  "getDataFromResponse json =
     (if foldl property json table_path = JUndefined then JArray []
      else foldl property json table_path)"
proof (cases "nullish json")
  case True
  have "foldl property json (''DataSet'' # tl table_path) = JUndefined"
    using True by (simp only: foldl_Cons property_nullish foldl_property_undefined)
  then have "foldl property json table_path = JUndefined"
    by (simp add: table_path_def)
  then show ?thesis
    using True by (simp add: getDataFromResponse_def get_def)
next
  case False
  have "table_path \<noteq> []" by (simp add: table_path_def)
  then show ?thesis
    using False by (simp add: getDataFromResponse_def get_def Let_def baseGet_foldl)
qed

text \<open>
  C4. \<open>foldl property json (take k table_path)\<close> is the value the first \<open>k\<close> segments
  of the path lead to from the document. When that value does not have the next
  segment, whichever segment it is, \<^verbatim>\<open>getDataFromResponse\<close> returns the empty array;
  it is a total function and never throws.
\<close>

theorem getDataFromResponse_missing_segment:
  assumes "k < length table_path"
    and "property (foldl property json (take k table_path)) (table_path ! k) = JUndefined"
  shows "getDataFromResponse json = JArray []"
proof -
  have "table_path = take (Suc k) table_path @ drop (Suc k) table_path"
    by simp
  also have "take (Suc k) table_path = take k table_path @ [table_path ! k]"
    using assms(1) by (simp add: take_Suc_conv_app_nth)
  finally have split: "table_path = (take k table_path @ [table_path ! k]) @ drop (Suc k) table_path" .
  have "foldl property json table_path
      = foldl property json ((take k table_path @ [table_path ! k]) @ drop (Suc k) table_path)"
    using split by simp
  also have "\<dots> = foldl property
      (property (foldl property json (take k table_path)) (table_path ! k))
      (drop (Suc k) table_path)"
    by simp
  also have "\<dots> = JUndefined"
    using assms(2) by (simp add: foldl_property_undefined)
  finally show ?thesis
    by (simp add: getDataFromResponse_foldl)
qed

theorem getDataFromResponse_missing_segment_witness:
  "(3 :: nat) < length table_path
   \<and> property
        (foldl property
           (JObject [(''DataSet'', JObject [(''diffgr:diffgram'', JArray [JString []])])])
           (take 3 table_path))
        (table_path ! 3) = JUndefined
   \<and> getDataFromResponse
        (JObject [(''DataSet'', JObject [(''diffgr:diffgram'', JArray [JString []])])])
       = JArray []"
proof -
  let ?json = "JObject [(''DataSet'', JObject [(''diffgr:diffgram'', JArray [JString []])])]"
  have bound: "(3 :: nat) < length table_path"
    by (simp add: table_path_def)
  have missing: "property (foldl property ?json (take 3 table_path)) (table_path ! 3) = JUndefined"
    by (simp add: table_path_def property_def array_index_def is_digit_def)
  show ?thesis
    using getDataFromResponse_missing_segment [OF bound missing] bound missing by simp
qed

section \<open>\<^verbatim>\<open>getLocalidadesByProvincia\<close> without its elements\<close>

lemma member_nullish: "nullish v \<Longrightarrow> member v key = Inl (cannot_read v key)"
  by (simp add: member_def)

lemma member_value: "\<not> nullish v \<Longrightarrow> member v key = Inr (property v key)"
  by (simp add: member_def)

lemma cannot_read_name: "err_name (cannot_read v key) = ''TypeError''"
  by (simp add: cannot_read_def)

lemma getLocalidadesByProvincia_parsed:
  assumes "fetch (getLocalidadesByProvincia_request idProvincia) = Inr result"
    and "ok result"
    and "text_body result = Inr xml"
    and "parseXML xml = Inr json"
  shows "getLocalidadesByProvincia_chain fetch parseXML idProvincia =
     and_then (member json ''Localidades'') (\<lambda>Localidades.
     and_then (member Localidades ''Provincia'') (\<lambda>Provincia.
       js_map Provincia ''json.Localidades.Provincia'' getLocalidadesByProvincia_place))"
  using assms
  by (simp add: getLocalidadesByProvincia_chain_def parseResponse_success and_then_Inr)

text \<open>
  C10. When the parsed document has no \<^verbatim>\<open>Localidades\<close> property, or that value has
  no \<^verbatim>\<open>Provincia\<close> property, \<^verbatim>\<open>getLocalidadesByProvincia\<close> rejects: a \<^verbatim>\<open>TypeError\<close>
  is thrown and the \<^verbatim>\<open>.catch\<close> handler wraps it. It does not resolve to the empty
  array.
\<close>

theorem getLocalidadesByProvincia_missing_path_rejects:
  assumes "fetch (getLocalidadesByProvincia_request idProvincia) = Inr result"
    and "ok result"
    and "text_body result = Inr xml"
    and "parseXML xml = Inr json"
    and "property json ''Localidades'' = JUndefined
       \<or> property (property json ''Localidades'') ''Provincia'' = JUndefined"
  shows "\<exists>t. err_name t = ''TypeError''
       \<and> getLocalidadesByProvincia_chain fetch parseXML idProvincia = Inl t
       \<and> getLocalidadesByProvincia fetch parseXML idProvincia
           = Inl (new_Error (error_toString t))"
proof -
  have chain: "getLocalidadesByProvincia_chain fetch parseXML idProvincia =
     and_then (member json ''Localidades'') (\<lambda>Localidades.
     and_then (member Localidades ''Provincia'') (\<lambda>Provincia.
       js_map Provincia ''json.Localidades.Provincia'' getLocalidadesByProvincia_place))"
    using assms(1-4) by (rule getLocalidadesByProvincia_parsed)
  have "\<exists>t. err_name t = ''TypeError''
      \<and> getLocalidadesByProvincia_chain fetch parseXML idProvincia = Inl t"
  proof (cases "nullish json")
    case True
    then show ?thesis
      by (simp add: chain member_nullish and_then_Inl cannot_read_name)
  next
    case json: False
    show ?thesis
    proof (cases "nullish (property json ''Localidades'')")
      case True
      then show ?thesis
        using json by (simp add: chain member_nullish member_value completion_simps cannot_read_name)
    next
      case False
      then have "property json ''Localidades'' \<noteq> JUndefined"
        by (auto simp: nullish_def)
      then have "property (property json ''Localidades'') ''Provincia'' = JUndefined"
        using assms(5) by simp
      then show ?thesis
        using json False
        by (simp add: chain member_value completion_simps js_map_def cannot_read_name)
    qed
  qed
  then obtain t where "err_name t = ''TypeError''"
    and "getLocalidadesByProvincia_chain fetch parseXML idProvincia = Inl t"
    by blast
  then show ?thesis
    by (auto simp: getLocalidadesByProvincia_def promise_catch_Inl rethrow_def)
qed

theorem getLocalidadesByProvincia_missing_path_rejects_witness:
  "ok \<lparr>status = 200, text_body = Inr ''<Localidades/>''\<rparr>
   \<and> property (property (JObject [(''Localidades'', JString [])]) ''Localidades'') ''Provincia''
       = JUndefined
   \<and> (\<exists>t. err_name t = ''TypeError''
       \<and> getLocalidadesByProvincia_chain
            (\<lambda>url. Inr \<lparr>status = 200, text_body = Inr ''<Localidades/>''\<rparr>)
            (\<lambda>xml. Inr (JObject [(''Localidades'', JString [])])) ''1'' = Inl t
       \<and> getLocalidadesByProvincia
            (\<lambda>url. Inr \<lparr>status = 200, text_body = Inr ''<Localidades/>''\<rparr>)
            (\<lambda>xml. Inr (JObject [(''Localidades'', JString [])])) ''1''
           = Inl (new_Error (error_toString t)))"
proof -
  have missing: "property (property (JObject [(''Localidades'', JString [])]) ''Localidades'')
      ''Provincia'' = JUndefined"
    by (simp add: property_def array_index_def is_digit_def)
  show ?thesis
    using getLocalidadesByProvincia_missing_path_rejects
      [of "\<lambda>url. Inr \<lparr>status = 200, text_body = Inr ''<Localidades/>''\<rparr>" "''1''"
          "\<lparr>status = 200, text_body = Inr ''<Localidades/>''\<rparr>" "''<Localidades/>''"
          "\<lambda>xml. Inr (JObject [(''Localidades'', JString [])])"
          "JObject [(''Localidades'', JString [])]"]
      missing
    by (simp add: ok_200)
qed

section \<open>Responses without rows\<close>

lemma js_map_empty: "js_map (JArray []) expr f = Inr (JArray [])"
  by (simp add: js_map_def and_then_Inr)

text \<open>
  The four operations that read the rows through \<^verbatim>\<open>getDataFromResponse\<close> resolve to
  the empty array when there are no rows.
\<close>

lemma zero_rows_resolve_empty:
  assumes "\<And>url. fetch url = Inr result"
    and "ok result"
    and "text_body result = Inr xml"
    and "parseXML xml = Inr json"
    and "getDataFromResponse json = JArray []"
  shows "listEnvios fetch parseXML cuit fechaDesde fechaHasta = Inr (JArray [])
    \<and> tarifarEnvioCorporativo fetch parseXML operativa cuit pesoTotal volumenTotal
          codigoPostalOrigen codigoPostalDestino cantidadPaquetes valorDeclarado
        = Inr (JArray [])
    \<and> getProvincias fetch parseXML = Inr (JArray [])
    \<and> trackingPieza fetch parseXML pieza nroDocumentoCliente cuit' = Inr (JArray [])"
  using assms(2-5)
  by (simp add: operation_defs chain_defs assms(1) parseResponse_success completion_simps
      js_map_empty)

text \<open>
  C2 at its failing input. A document without \<^verbatim>\<open>Provincia\<close> elements is parsed to an
  object whose \<^verbatim>\<open>Localidades\<close> is the empty string; \<^verbatim>\<open>getLocalidadesByProvincia\<close>
  then calls \<^verbatim>\<open>map\<close> on \<^verbatim>\<open>undefined\<close> and rejects, where the claim asks for the
  empty array.
\<close>

theorem getLocalidadesByProvincia_zero_rows_rejects:
  "getLocalidadesByProvincia
      (\<lambda>url. Inr \<lparr>status = 200, text_body = Inr ''<Localidades />''\<rparr>)
      (\<lambda>xml. Inr (JObject [(''Localidades'', JString [])])) ''1''
     = Inl (new_Error (error_toString (cannot_read JUndefined ''map'')))
   \<and> getLocalidadesByProvincia
      (\<lambda>url. Inr \<lparr>status = 200, text_body = Inr ''<Localidades />''\<rparr>)
      (\<lambda>xml. Inr (JObject [(''Localidades'', JString [])])) ''1''
     \<noteq> Inr (JArray [])"
  by (simp add: getLocalidadesByProvincia_def getLocalidadesByProvincia_chain_def
      parseResponse_def ok_def completion_simps member_def nullish_def property_def
      array_index_def is_digit_def js_map_def rethrow_def)

section \<open>Rows to records\<close>

lemma array_index_zero: "array_index ''0'' = Some 0"
  by (simp add: array_index_def is_digit_def)

lemma first_of_array: "member (JArray (x # xs)) ''0'' = Inr x"
  by (simp add: member_def nullish_def property_def array_index_zero)

lemma map_elems_all:
  assumes "\<forall>x\<in>set xs. f x = Inr (g x)"
  shows "map_elems f xs = Inr (map g xs)"
  using assms by (induction xs) (simp_all add: and_then_Inr)

lemma map_elems_Inr:
  assumes "map_elems f xs = Inr ys"
  shows "length ys = length xs \<and> (\<forall>i<length xs. f (xs ! i) = Inr (ys ! i))"
  using assms
proof (induction xs arbitrary: ys)
  case Nil
  then show ?case by simp
next
  case (Cons x xs)
  from Cons.prems obtain y ys' where y: "f x = Inr y"
    and ys': "map_elems f xs = Inr ys'" and ys: "ys = y # ys'"
    by (auto simp: and_then_def split: sum.splits)
  have "length ys' = length xs \<and> (\<forall>i<length xs. f (xs ! i) = Inr (ys' ! i))"
    using ys' by (rule Cons.IH)
  then show ?case
    using y ys by (auto simp: nth_Cons split: nat.splits)
qed

lemma js_map_Inr:
  assumes "js_map list expr f = Inr out"
  shows "\<exists>xs ys. list = JArray xs \<and> out = JArray ys \<and> map_elems f xs = Inr ys"
  using assms by (cases list) (auto simp: js_map_def and_then_def split: sum.splits)

lemma listEnvios_elem_row:
  assumes "property row ''NroProducto'' = JArray (p # ps)"
    and "property row ''NumeroEnvio'' = JArray (n # ns)"
  shows "listEnvios_elem row = Inr (JObject [(''nroProducto'', p), (''numeroEnvio'', n)])"
proof -
  have "\<not> nullish row"
    using assms(1) property_nullish [of row "''NroProducto''"] by auto
  then show ?thesis
    using assms by (simp add: listEnvios_elem_def member_value and_then_Inr first_of_array)
qed

text \<open>
  C3. When the parsed document has a two-row array at the path of
  \<^verbatim>\<open>getDataFromResponse\<close>, and each row has \<^verbatim>\<open>NroProducto\<close> and \<^verbatim>\<open>NumeroEnvio\<close>
  arrays, \<^verbatim>\<open>listEnvios\<close> resolves to exactly two records, in the order of the rows,
  whose \<^verbatim>\<open>nroProducto\<close> and \<^verbatim>\<open>numeroEnvio\<close> are the first values of those arrays.
\<close>

theorem listEnvios_two_rows:
  assumes "fetch (listEnvios_request cuit fechaDesde fechaHasta) = Inr result"
    and "ok result"
    and "text_body result = Inr xml"
    and "parseXML xml = Inr json"
    and "foldl property json table_path = JArray [row1, row2]"
    and "property row1 ''NroProducto'' = JArray (p1 # ps1)"
    and "property row1 ''NumeroEnvio'' = JArray (n1 # ns1)"
    and "property row2 ''NroProducto'' = JArray (p2 # ps2)"
    and "property row2 ''NumeroEnvio'' = JArray (n2 # ns2)"
  shows "listEnvios fetch parseXML cuit fechaDesde fechaHasta =
     Inr (JArray
       [JObject [(''nroProducto'', p1), (''numeroEnvio'', n1)],
        JObject [(''nroProducto'', p2), (''numeroEnvio'', n2)]])"
proof -
  have rows: "getDataFromResponse json = JArray [row1, row2]"
    using assms(5) by (simp add: getDataFromResponse_foldl)
  have "listEnvios_chain fetch parseXML cuit fechaDesde fechaHasta
      = js_map (JArray [row1, row2]) ''list'' listEnvios_elem"
    using assms(2-4) rows
    by (simp add: listEnvios_chain_def assms(1) parseResponse_success and_then_Inr)
  also have "\<dots> = Inr (JArray
       [JObject [(''nroProducto'', p1), (''numeroEnvio'', n1)],
        JObject [(''nroProducto'', p2), (''numeroEnvio'', n2)]])"
    by (simp add: js_map_def and_then_Inr
        listEnvios_elem_row [OF assms(6,7)] listEnvios_elem_row [OF assms(8,9)])
  finally show ?thesis
    by (simp add: listEnvios_def promise_catch_Inr)
qed

theorem listEnvios_two_rows_witness:
  "ok \<lparr>status = 200, text_body = Inr ''<DataSet>...</DataSet>''\<rparr>
   \<and> listEnvios (\<lambda>url. Inr \<lparr>status = 200, text_body = Inr ''<DataSet>...</DataSet>''\<rparr>)
       (\<lambda>xml. Inr (JObject [(''DataSet'', JObject [(''diffgr:diffgram'', JArray [JObject
          [(''NewDataSet'', JArray [JObject [(''Table'', JArray
             [JObject [(''NroProducto'', JArray [JString ''1001'']),
                       (''NumeroEnvio'', JArray [JString ''A1''])],
              JObject [(''NroProducto'', JArray [JString ''1002'']),
                       (''NumeroEnvio'', JArray [JString ''B2''])]])]])]])])]))
       ''30-71448151-3'' ''02/06/2016'' ''03/06/2016''
     = Inr (JArray
         [JObject [(''nroProducto'', JString ''1001''), (''numeroEnvio'', JString ''A1'')],
          JObject [(''nroProducto'', JString ''1002''), (''numeroEnvio'', JString ''B2'')]])"
proof -
  let ?row1 = "JObject [(''NroProducto'', JArray [JString ''1001'']),
                        (''NumeroEnvio'', JArray [JString ''A1''])]"
  let ?row2 = "JObject [(''NroProducto'', JArray [JString ''1002'']),
                        (''NumeroEnvio'', JArray [JString ''B2''])]"
  let ?json = "JObject [(''DataSet'', JObject [(''diffgr:diffgram'', JArray [JObject
          [(''NewDataSet'', JArray [JObject [(''Table'', JArray [?row1, ?row2])]])]])])]"
  let ?result = "\<lparr>status = 200, text_body = Inr ''<DataSet>...</DataSet>''\<rparr>"
  have path: "foldl property ?json table_path = JArray [?row1, ?row2]"
    by (simp add: table_path_def property_def array_index_def is_digit_def)
  have fields:
    "property ?row1 ''NroProducto'' = JArray [JString ''1001'']"
    "property ?row1 ''NumeroEnvio'' = JArray [JString ''A1'']"
    "property ?row2 ''NroProducto'' = JArray [JString ''1002'']"
    "property ?row2 ''NumeroEnvio'' = JArray [JString ''B2'']"
    by (simp_all add: property_def)
  have "listEnvios (\<lambda>url. Inr ?result) (\<lambda>xml. Inr ?json)
       ''30-71448151-3'' ''02/06/2016'' ''03/06/2016''
     = Inr (JArray
         [JObject [(''nroProducto'', JString ''1001''), (''numeroEnvio'', JString ''A1'')],
          JObject [(''nroProducto'', JString ''1002''), (''numeroEnvio'', JString ''B2'')]])"
    using listEnvios_two_rows
        [where fetch = "\<lambda>url. Inr ?result" and parseXML = "\<lambda>xml. Inr ?json"
           and result = ?result and xml = "''<DataSet>...</DataSet>''" and json = ?json
           and cuit = "''30-71448151-3''" and fechaDesde = "''02/06/2016''"
           and fechaHasta = "''03/06/2016''", OF _ _ _ _ path fields]
    by (simp add: ok_200)
  then show ?thesis
    by (simp add: ok_200)
qed

section \<open>\<^verbatim>\<open>getProvincias\<close> trims the description\<close>

lemma trim_body:
  "dropWhile is_white_space s
     = trim s @ rev (takeWhile is_white_space (rev (dropWhile is_white_space s)))"
proof -
  have "rev (takeWhile is_white_space (rev (dropWhile is_white_space s))
        @ dropWhile is_white_space (rev (dropWhile is_white_space s)))
      = trim s @ rev (takeWhile is_white_space (rev (dropWhile is_white_space s)))"
    unfolding trim_def by (rule rev_append)
  then show ?thesis
    by (simp only: takeWhile_dropWhile_id rev_rev_ident)
qed

lemma trim_decomposition:
  "\<exists>leading trailing. s = leading @ trim s @ trailing
     \<and> list_all is_white_space leading \<and> list_all is_white_space trailing"
proof -
  let ?body = "dropWhile is_white_space s"
  have body: "?body = trim s @ rev (takeWhile is_white_space (rev ?body))"
    by (rule trim_body)
  have "s = takeWhile is_white_space s @ ?body"
    by simp
  then have "s = takeWhile is_white_space s @ trim s @ rev (takeWhile is_white_space (rev ?body))"
    using body by simp
  moreover have "list_all is_white_space (takeWhile is_white_space s)"
    by (auto simp: list_all_iff dest: set_takeWhileD)
  moreover have "list_all is_white_space (rev (takeWhile is_white_space (rev ?body)))"
    by (auto simp: list_all_iff dest: set_takeWhileD)
  ultimately show ?thesis by blast
qed

lemma trim_last:
  assumes "trim s \<noteq> []"
  shows "\<not> is_white_space (last (trim s))"
proof -
  let ?r = "dropWhile is_white_space (rev (dropWhile is_white_space s))"
  have "?r \<noteq> []" using assms by (simp add: trim_def)
  then have "\<not> is_white_space (hd ?r)" by (rule hd_dropWhile)
  moreover have "last (trim s) = hd ?r"
    using \<open>?r \<noteq> []\<close> by (simp add: trim_def last_rev)
  ultimately show ?thesis by simp
qed

lemma trim_hd:
  assumes "trim s \<noteq> []"
  shows "\<not> is_white_space (hd (trim s))"
proof -
  let ?body = "dropWhile is_white_space s"
  have body: "?body = trim s @ rev (takeWhile is_white_space (rev ?body))"
    by (rule trim_body)
  then have "?body \<noteq> []" using assms by (metis Nil_is_append_conv)
  then have "\<not> is_white_space (hd ?body)" by (rule hd_dropWhile)
  moreover have "hd ?body = hd (trim s)"
    using assms by (subst body) simp
  ultimately show ?thesis by simp
qed

lemma getProvincias_elem_Inr:
  assumes "getProvincias_elem row = Inr record"
  shows "\<exists>d. property (property row ''Descripcion'') ''0'' = JString d
     \<and> record = JObject
         [(''idProvincia'', property (property row ''IdProvincia'') ''0''),
          (''descripcion'', JString (trim d))]"
  using assms
  by (auto simp: getProvincias_elem_def Let_def member_def call_trim_def and_then_def
      split: if_splits sum.splits jsval.splits)

text \<open>
  C5. When \<^verbatim>\<open>getProvincias\<close> resolves, its result has one record for each row, in
  order. The \<^verbatim>\<open>descripcion\<close> of a record is the first value \<open>d\<close> of the row's
  \<^verbatim>\<open>Descripcion\<close> trimmed: \<open>d\<close> is \<open>trim d\<close> between a run of white space on each
  side, and \<open>trim d\<close> neither starts nor ends with white space, so that what lies
  between its ends is kept as it is. The \<^verbatim>\<open>idProvincia\<close> is the first value of the
  row's \<^verbatim>\<open>IdProvincia\<close>, unchanged.
\<close>

theorem getProvincias_trims_descripcion:
  assumes "fetch getProvincias_request = Inr result"
    and "ok result"
    and "text_body result = Inr xml"
    and "parseXML xml = Inr json"
    and "getProvincias fetch parseXML = Inr out"
  shows "\<exists>rows records.
      getDataFromResponse json = JArray rows \<and> out = JArray records
      \<and> length records = length rows
      \<and> (\<forall>i<length rows. \<exists>d leading trailing.
            property (property (rows ! i) ''Descripcion'') ''0'' = JString d
            \<and> d = leading @ trim d @ trailing
            \<and> list_all is_white_space leading \<and> list_all is_white_space trailing
            \<and> (trim d = [] \<or>
                 \<not> is_white_space (hd (trim d)) \<and> \<not> is_white_space (last (trim d)))
            \<and> records ! i = JObject
                [(''idProvincia'', property (property (rows ! i) ''IdProvincia'') ''0''),
                 (''descripcion'', JString (trim d))])"
proof -
  have chain: "getProvincias_chain fetch parseXML
      = js_map (getDataFromResponse json) ''list'' getProvincias_elem"
    using assms(2-4)
    by (simp add: getProvincias_chain_def assms(1) parseResponse_success and_then_Inr)
  have "getProvincias_chain fetch parseXML = Inr out"
    using assms(5)
    by (cases "getProvincias_chain fetch parseXML")
      (simp_all add: getProvincias_def completion_simps rethrow_def)
  then have "js_map (getDataFromResponse json) ''list'' getProvincias_elem = Inr out"
    using chain by simp
  then obtain rows records where rows: "getDataFromResponse json = JArray rows"
    and out: "out = JArray records"
    and mapped: "map_elems getProvincias_elem rows = Inr records"
    using js_map_Inr by blast
  have len: "length records = length rows"
    and each: "\<forall>i<length rows. getProvincias_elem (rows ! i) = Inr (records ! i)"
    using map_elems_Inr [OF mapped] by simp_all
  have "\<exists>d leading trailing.
            property (property (rows ! i) ''Descripcion'') ''0'' = JString d
            \<and> d = leading @ trim d @ trailing
            \<and> list_all is_white_space leading \<and> list_all is_white_space trailing
            \<and> (trim d = [] \<or>
                 \<not> is_white_space (hd (trim d)) \<and> \<not> is_white_space (last (trim d)))
            \<and> records ! i = JObject
                [(''idProvincia'', property (property (rows ! i) ''IdProvincia'') ''0''),
                 (''descripcion'', JString (trim d))]"
    if "i < length rows" for i
  proof -
    have "getProvincias_elem (rows ! i) = Inr (records ! i)"
      using each that by simp
    then obtain d where d: "property (property (rows ! i) ''Descripcion'') ''0'' = JString d"
      and shape: "records ! i = JObject
          [(''idProvincia'', property (property (rows ! i) ''IdProvincia'') ''0''),
           (''descripcion'', JString (trim d))]"
      using getProvincias_elem_Inr by blast
    obtain leading trailing where "d = leading @ trim d @ trailing"
      and "list_all is_white_space leading" and "list_all is_white_space trailing"
      using trim_decomposition by blast
    moreover have "trim d = [] \<or>
        \<not> is_white_space (hd (trim d)) \<and> \<not> is_white_space (last (trim d))"
      using trim_hd trim_last by blast
    ultimately show ?thesis
      using d shape by blast
  qed
  then show ?thesis
    using rows out len by blast
qed

theorem getProvincias_trims_descripcion_witness:
  "ok \<lparr>status = 200, text_body = Inr ''<DataSet>...</DataSet>''\<rparr>
   \<and> getProvincias (\<lambda>url. Inr \<lparr>status = 200, text_body = Inr ''<DataSet>...</DataSet>''\<rparr>)
       (\<lambda>xml. Inr (JObject [(''DataSet'', JObject [(''diffgr:diffgram'', JArray [JObject
          [(''NewDataSet'', JArray [JObject [(''Table'', JArray
             [JObject [(''IdProvincia'', JArray [JString '' 1 '']),
                       (''Descripcion'', JArray [JString ''  TIERRA DEL  FUEGO ''])]])]])]])])]))
     = Inr (JArray
         [JObject [(''idProvincia'', JString '' 1 ''),
                   (''descripcion'', JString ''TIERRA DEL  FUEGO'')]])
   \<and> (\<exists>rows records.
      getDataFromResponse (JObject [(''DataSet'', JObject [(''diffgr:diffgram'', JArray [JObject
          [(''NewDataSet'', JArray [JObject [(''Table'', JArray
             [JObject [(''IdProvincia'', JArray [JString '' 1 '']),
                       (''Descripcion'', JArray [JString ''  TIERRA DEL  FUEGO ''])]])]])]])])])
        = JArray rows
      \<and> JArray [JObject [(''idProvincia'', JString '' 1 ''),
                   (''descripcion'', JString ''TIERRA DEL  FUEGO'')]] = JArray records
      \<and> length records = length rows
      \<and> (\<forall>i<length rows. \<exists>d leading trailing.
            property (property (rows ! i) ''Descripcion'') ''0'' = JString d
            \<and> d = leading @ trim d @ trailing
            \<and> list_all is_white_space leading \<and> list_all is_white_space trailing
            \<and> (trim d = [] \<or>
                 \<not> is_white_space (hd (trim d)) \<and> \<not> is_white_space (last (trim d)))
            \<and> records ! i = JObject
                [(''idProvincia'', property (property (rows ! i) ''IdProvincia'') ''0''),
                 (''descripcion'', JString (trim d))]))"
proof -
  let ?result = "\<lparr>status = 200, text_body = Inr ''<DataSet>...</DataSet>''\<rparr>"
  let ?json = "JObject [(''DataSet'', JObject [(''diffgr:diffgram'', JArray [JObject
          [(''NewDataSet'', JArray [JObject [(''Table'', JArray
             [JObject [(''IdProvincia'', JArray [JString '' 1 '']),
                       (''Descripcion'', JArray [JString ''  TIERRA DEL  FUEGO ''])]])]])]])])]"
  let ?out = "JArray [JObject [(''idProvincia'', JString '' 1 ''),
                   (''descripcion'', JString ''TIERRA DEL  FUEGO'')]]"
  have rows: "getDataFromResponse ?json = JArray
      [JObject [(''IdProvincia'', JArray [JString '' 1 '']),
                (''Descripcion'', JArray [JString ''  TIERRA DEL  FUEGO ''])]]"
    by (simp add: getDataFromResponse_foldl table_path_def property_def array_index_def
        is_digit_def)
  have trimmed: "trim ''  TIERRA DEL  FUEGO '' = ''TIERRA DEL  FUEGO''"
    by (simp add: trim_def is_white_space_def)
  have run: "getProvincias (\<lambda>url. Inr ?result) (\<lambda>xml. Inr ?json) = Inr ?out"
    by (simp add: getProvincias_def getProvincias_chain_def parseResponse_def ok_def
        completion_simps rows js_map_def getProvincias_elem_def nullish_def property_def
        first_of_array call_trim_def trimmed)
  show ?thesis
    using getProvincias_trims_descripcion
      [where fetch = "\<lambda>url. Inr ?result" and parseXML = "\<lambda>xml. Inr ?json"
         and result = ?result and xml = "''<DataSet>...</DataSet>''" and json = ?json
         and out = ?out, OF _ _ _ _ run]
      run
    by (simp add: ok_200)
qed

section \<open>\<^verbatim>\<open>getLocalidadesByProvincia\<close> returns first \<^verbatim>\<open>Nombre\<close> values\<close>

lemma getLocalidadesByProvincia_place_name:
  assumes "property place ''Nombre'' = JArray (name # rest)"
  shows "getLocalidadesByProvincia_place place = Inr name"
proof -
  have "\<not> nullish place"
    using assms property_nullish [of place "''Nombre''"] by auto
  then show ?thesis
    using assms
    by (simp add: getLocalidadesByProvincia_place_def member_value and_then_Inr first_of_array)
qed

lemma getLocalidadesByProvincia_place_Inr:
  assumes "getLocalidadesByProvincia_place place = Inr v"
  shows "v = property (property place ''Nombre'') ''0''"
  using assms
  by (auto simp: getLocalidadesByProvincia_place_def member_def and_then_def
      split: if_splits sum.splits)

text \<open>
  C8 (as amended). When \<^verbatim>\<open>getLocalidadesByProvincia\<close> resolves, the parsed document
  has an array at \<^verbatim>\<open>Localidades\<close>, \<^verbatim>\<open>Provincia\<close> and the result is the array of the
  first \<^verbatim>\<open>Nombre\<close> values of its elements, in order, each returned as it is and
  never wrapped in a record of the operation's own. It does resolve when every
  element has a \<^verbatim>\<open>Nombre\<close> array, and the result is the array of the names when
  those first values are strings.
\<close>

theorem getLocalidadesByProvincia_names:
  assumes "fetch (getLocalidadesByProvincia_request idProvincia) = Inr result"
    and "ok result"
    and "text_body result = Inr xml"
    and "parseXML xml = Inr json"
  shows "(\<forall>out. getLocalidadesByProvincia fetch parseXML idProvincia = Inr out \<longrightarrow>
        (\<exists>places. property (property json ''Localidades'') ''Provincia'' = JArray places
           \<and> out = JArray (map (\<lambda>place. property (property place ''Nombre'') ''0'') places)))
     \<and> (\<forall>places.
          property (property json ''Localidades'') ''Provincia'' = JArray places
          \<and> (\<forall>place\<in>set places. \<exists>v rest. property place ''Nombre'' = JArray (v # rest))
          \<longrightarrow> getLocalidadesByProvincia fetch parseXML idProvincia
              = Inr (JArray (map (\<lambda>place. property (property place ''Nombre'') ''0'') places)))
     \<and> (\<forall>places names.
          property (property json ''Localidades'') ''Provincia'' = JArray places
          \<and> length names = length places
          \<and> (\<forall>i<length places. \<exists>rest.
                property (places ! i) ''Nombre'' = JArray (JString (names ! i) # rest))
          \<longrightarrow> getLocalidadesByProvincia fetch parseXML idProvincia
              = Inr (JArray (map JString names)))"
proof -
  have chain: "getLocalidadesByProvincia_chain fetch parseXML idProvincia =
     and_then (member json ''Localidades'') (\<lambda>Localidades.
     and_then (member Localidades ''Provincia'') (\<lambda>Provincia.
       js_map Provincia ''json.Localidades.Provincia'' getLocalidadesByProvincia_place))"
    using assms(1-4) by (rule getLocalidadesByProvincia_parsed)
  have at_path: "getLocalidadesByProvincia_chain fetch parseXML idProvincia
      = js_map (JArray places) ''json.Localidades.Provincia'' getLocalidadesByProvincia_place"
    if places: "property (property json ''Localidades'') ''Provincia'' = JArray places"
    for places
  proof -
    have localidades: "\<not> nullish (property json ''Localidades'')"
      using places property_nullish [of "property json ''Localidades''" "''Provincia''"] by auto
    then have "\<not> nullish json"
      using property_nullish [of json "''Localidades''"] by (auto simp: nullish_def)
    then show ?thesis
      using localidades places by (simp add: chain member_value and_then_Inr)
  qed
  have first: "\<exists>places. property (property json ''Localidades'') ''Provincia'' = JArray places
           \<and> out = JArray (map (\<lambda>place. property (property place ''Nombre'') ''0'') places)"
    if resolved: "getLocalidadesByProvincia fetch parseXML idProvincia = Inr out" for out
  proof -
    have run: "getLocalidadesByProvincia_chain fetch parseXML idProvincia = Inr out"
      using resolved
      by (cases "getLocalidadesByProvincia_chain fetch parseXML idProvincia")
        (simp_all add: getLocalidadesByProvincia_def completion_simps rethrow_def)
    then obtain Localidades Provincia where
      "member json ''Localidades'' = Inr Localidades"
      and "member Localidades ''Provincia'' = Inr Provincia"
      and mapped: "js_map Provincia ''json.Localidades.Provincia''
          getLocalidadesByProvincia_place = Inr out"
      unfolding chain by (auto simp: and_then_def split: sum.splits)
    then have Provincia: "Provincia = property (property json ''Localidades'') ''Provincia''"
      by (auto simp: member_def split: if_splits)
    obtain places outs where places: "Provincia = JArray places"
      and out: "out = JArray outs"
      and elems: "map_elems getLocalidadesByProvincia_place places = Inr outs"
      using js_map_Inr [OF mapped] by blast
    have len: "length outs = length places"
      and each: "\<forall>i<length places. getLocalidadesByProvincia_place (places ! i) = Inr (outs ! i)"
      using map_elems_Inr [OF elems] by simp_all
    have "outs = map (\<lambda>place. property (property place ''Nombre'') ''0'') places"
    proof (rule nth_equalityI)
      show "length outs = length (map (\<lambda>place. property (property place ''Nombre'') ''0'') places)"
        using len by simp
    next
      fix i
      assume "i < length outs"
      then have i: "i < length places" using len by simp
      then have "getLocalidadesByProvincia_place (places ! i) = Inr (outs ! i)"
        using each by simp
      then have "outs ! i = property (property (places ! i) ''Nombre'') ''0''"
        by (rule getLocalidadesByProvincia_place_Inr)
      then show "outs ! i = map (\<lambda>place. property (property place ''Nombre'') ''0'') places ! i"
        using i by simp
    qed
    moreover have "property (property json ''Localidades'') ''Provincia'' = JArray places"
      using Provincia places by simp
    ultimately show ?thesis
      using out by blast
  qed
  have second: "getLocalidadesByProvincia fetch parseXML idProvincia
      = Inr (JArray (map (\<lambda>place. property (property place ''Nombre'') ''0'') places))"
    if places: "property (property json ''Localidades'') ''Provincia'' = JArray places"
      and arrays: "\<forall>place\<in>set places. \<exists>v rest. property place ''Nombre'' = JArray (v # rest)"
    for places
  proof -
    have "getLocalidadesByProvincia_place place
        = Inr (property (property place ''Nombre'') ''0'')"
      if elem: "place \<in> set places" for place
    proof -
      obtain v rest where nombre: "property place ''Nombre'' = JArray (v # rest)"
        using arrays elem by blast
      then have "getLocalidadesByProvincia_place place = Inr v"
        by (rule getLocalidadesByProvincia_place_name)
      moreover have "property (property place ''Nombre'') ''0'' = v"
        using nombre by (simp add: property_def array_index_zero)
      ultimately show ?thesis by simp
    qed
    then have "map_elems getLocalidadesByProvincia_place places
        = Inr (map (\<lambda>place. property (property place ''Nombre'') ''0'') places)"
      by (intro map_elems_all) simp
    then show ?thesis
      by (simp add: getLocalidadesByProvincia_def at_path [OF places] js_map_def
          completion_simps)
  qed
  have third: "getLocalidadesByProvincia fetch parseXML idProvincia
      = Inr (JArray (map JString names))"
    if places: "property (property json ''Localidades'') ''Provincia'' = JArray places"
      and len: "length names = length places"
      and strings: "\<forall>i<length places. \<exists>rest.
          property (places ! i) ''Nombre'' = JArray (JString (names ! i) # rest)"
    for places names
  proof -
    have arrays: "\<forall>place\<in>set places. \<exists>v rest. property place ''Nombre'' = JArray (v # rest)"
      using strings by (metis in_set_conv_nth)
    have "map (\<lambda>place. property (property place ''Nombre'') ''0'') places = map JString names"
    proof (rule nth_equalityI)
      show "length (map (\<lambda>place. property (property place ''Nombre'') ''0'') places)
          = length (map JString names)"
        using len by simp
    next
      fix i
      assume "i < length (map (\<lambda>place. property (property place ''Nombre'') ''0'') places)"
      then have i: "i < length places" by simp
      then obtain rest where
        "property (places ! i) ''Nombre'' = JArray (JString (names ! i) # rest)"
        using strings by blast
      then have "property (property (places ! i) ''Nombre'') ''0'' = JString (names ! i)"
        by (simp add: property_def array_index_zero)
      then show "map (\<lambda>place. property (property place ''Nombre'') ''0'') places ! i
          = map JString names ! i"
        using i len by simp
    qed
    then show ?thesis
      using second [OF places arrays] by simp
  qed
  show ?thesis
    using first second third by blast
qed

theorem getLocalidadesByProvincia_names_witness:
  "ok \<lparr>status = 200, text_body = Inr ''<Localidades>...</Localidades>''\<rparr>
   \<and> getLocalidadesByProvincia
       (\<lambda>url. Inr \<lparr>status = 200, text_body = Inr ''<Localidades>...</Localidades>''\<rparr>)
       (\<lambda>xml. Inr (JObject [(''Localidades'', JObject [(''Provincia'', JArray
          [JObject [(''Nombre'', JArray [JString ''USHUAIA''])],
           JObject [(''Nombre'', JArray [JString ''RIO GRANDE''])]])])]))
       ''23''
     = Inr (JArray [JString ''USHUAIA'', JString ''RIO GRANDE''])
   \<and> (\<exists>places.
        property (property (JObject [(''Localidades'', JObject [(''Provincia'', JArray
          [JObject [(''Nombre'', JArray [JString ''USHUAIA''])],
           JObject [(''Nombre'', JArray [JString ''RIO GRANDE''])]])])]) ''Localidades'')
          ''Provincia'' = JArray places
        \<and> JArray [JString ''USHUAIA'', JString ''RIO GRANDE'']
          = JArray (map (\<lambda>place. property (property place ''Nombre'') ''0'') places))"
proof -
  let ?result = "\<lparr>status = 200, text_body = Inr ''<Localidades>...</Localidades>''\<rparr>"
  let ?places = "[JObject [(''Nombre'', JArray [JString ''USHUAIA''])],
                  JObject [(''Nombre'', JArray [JString ''RIO GRANDE''])]]"
  let ?json = "JObject [(''Localidades'', JObject [(''Provincia'', JArray ?places)])]"
  let ?names = "[''USHUAIA'', ''RIO GRANDE'']"
  have body: "text_body ?result = Inr ''<Localidades>...</Localidades>''"
    by simp
  note inst = getLocalidadesByProvincia_names
      [where fetch = "\<lambda>url. Inr ?result" and parseXML = "\<lambda>xml. Inr ?json"
         and result = ?result and xml = "''<Localidades>...</Localidades>''" and json = ?json
         and idProvincia = "''23''", OF refl ok_200 body refl]
  have places: "property (property ?json ''Localidades'') ''Provincia'' = JArray ?places"
    by (simp add: property_def)
  have len: "length ?names = length ?places"
    by simp
  have names: "\<forall>i<length ?places. \<exists>rest.
      property (?places ! i) ''Nombre'' = JArray (JString (?names ! i) # rest)"
    by (simp add: property_def nth_Cons split: nat.splits)
  have "getLocalidadesByProvincia (\<lambda>url. Inr ?result) (\<lambda>xml. Inr ?json) ''23''
      = Inr (JArray (map JString ?names))"
    using inst places len names by blast
  then have run: "getLocalidadesByProvincia (\<lambda>url. Inr ?result) (\<lambda>xml. Inr ?json) ''23''
      = Inr (JArray [JString ''USHUAIA'', JString ''RIO GRANDE''])"
    by simp
  have "\<exists>places. property (property ?json ''Localidades'') ''Provincia'' = JArray places
      \<and> JArray [JString ''USHUAIA'', JString ''RIO GRANDE'']
        = JArray (map (\<lambda>place. property (property place ''Nombre'') ''0'') places)"
    using inst run by blast
  then show ?thesis
    using run ok_200 [of "Inr ''<Localidades>...</Localidades>''"] by blast
qed

text \<open>
  C8 as the spec states it fails. A \<^verbatim>\<open>Nombre\<close> element with an attribute is parsed
  to an object holding the text under \<^verbatim>\<open>_\<close> and the attributes under \<^verbatim>\<open>$\<close>; the
  operation returns that object as an element of its result, which is then not an
  array of strings.
\<close>

theorem getLocalidadesByProvincia_names_counterexample:
  "getLocalidadesByProvincia
       (\<lambda>url. Inr \<lparr>status = 200, text_body = Inr ''<Localidades>...</Localidades>''\<rparr>)
       (\<lambda>xml. Inr (JObject [(''Localidades'', JObject [(''Provincia'', JArray
          [JObject [(''Nombre'', JArray
             [JObject [(''_'', JString ''USHUAIA''),
                       (''$'', JObject [(''id'', JString ''1'')])]])]])])]))
       ''23''
     = Inr (JArray
         [JObject [(''_'', JString ''USHUAIA''), (''$'', JObject [(''id'', JString ''1'')])]])"
  by (simp add: getLocalidadesByProvincia_def getLocalidadesByProvincia_chain_def
      parseResponse_def ok_def completion_simps member_def nullish_def property_def
      array_index_zero js_map_def getLocalidadesByProvincia_place_def)

end
